theory Spec2Isabelle
  imports Main
begin

section \<open>JavaScript values used by the search handler\<close>

text \<open>
  The handler is TypeScript.  Query-string parameters are \<open>string | undefined\<close>,
  modelled as \<open>string option\<close> (\<open>None\<close> is \<open>undefined\<close>).  Strings are
  lists of characters; the regular-expression fragment below reads one \<open>char\<close> as one
  character, which is exact for ASCII input.
\<close>

text \<open>
  A JavaScript \<open>number\<close> as far as the pagination arithmetic needs it: \<open>NaN\<close>, or an
  integer.  Fractions and infinities are outside this model; \<open>js_Number\<close> below answers
  \<open>None\<close> for every string that could produce one.
\<close>

datatype jsnum = NaN | Num int

text \<open>\<open>Math.max\<close> and \<open>Math.min\<close>: \<open>NaN\<close> as soon as one argument is \<open>NaN\<close>.\<close>

fun Math_max :: "jsnum \<Rightarrow> jsnum \<Rightarrow> jsnum" where
  "Math_max (Num a) (Num b) = Num (max a b)"
| "Math_max _ _ = NaN"

fun Math_min :: "jsnum \<Rightarrow> jsnum \<Rightarrow> jsnum" where
  "Math_min (Num a) (Num b) = Num (min a b)"
| "Math_min _ _ = NaN"

fun js_sub :: "jsnum \<Rightarrow> jsnum \<Rightarrow> jsnum" where
  "js_sub (Num a) (Num b) = Num (a - b)"
| "js_sub _ _ = NaN"

fun js_mul :: "jsnum \<Rightarrow> jsnum \<Rightarrow> jsnum" where
  "js_mul (Num a) (Num b) = Num (a * b)"
| "js_mul _ _ = NaN"

text \<open>Truthiness of a \<open>string | undefined\<close>: defined and not the empty string.\<close>

fun truthy :: "string option \<Rightarrow> bool" where
  "truthy None = False"
| "truthy (Some s) = (s \<noteq> [])"

text \<open>Interpolation of a \<open>string | undefined\<close> into a template literal.\<close>

fun js_template :: "string option \<Rightarrow> string" where
  "js_template None = ''undefined''"
| "js_template (Some s) = s"

definition is_digit :: "char \<Rightarrow> bool" where
  "is_digit c = (c \<in> set ''0123456789'')"

definition is_ascii_letter :: "char \<Rightarrow> bool" where
  "is_ascii_letter c =
     (c \<in> set ''abcdefghijklmnopqrstuvwxyzABCDEFGHIJKLMNOPQRSTUVWXYZ'')"

definition digit_val :: "char \<Rightarrow> int" where
  "digit_val c = int (of_char c) - 48"

fun dec_val :: "int \<Rightarrow> string \<Rightarrow> int" where
  "dec_val acc [] = acc"
| "dec_val acc (c # cs) = dec_val (10 * acc + digit_val c) cs"

text \<open>
  \<open>Number(s)\<close> on a string, for the two kinds of input whose result is certain without
  the whole of ECMAScript's StringToNumber: a run of at most 15 decimal digits is that
  integer (exactly representable as a double), and a string whose first character is an
  ASCII letter other than \<open>I\<close> (of \<open>Infinity\<close>) is no numeric literal, so the result
  is \<open>NaN\<close>.  Every other string is outside the model: \<open>None\<close>.
\<close>

definition js_Number :: "string \<Rightarrow> jsnum option" where
  "js_Number s =
     (if s \<noteq> [] \<and> list_all is_digit s \<and> length s \<le> 15 then Some (Num (dec_val 0 s))
      else if s \<noteq> [] \<and> is_ascii_letter (hd s) \<and> hd s \<noteq> CHR ''I'' then Some NaN
      else None)"

section \<open>Filter documents\<close>

text \<open>
  The filters handed to the store are JavaScript object literals.  An object is its
  list of own properties in insertion order.
\<close>

datatype fvalue =
    FUndefined
  | FStr string
  | FBool bool
  | FRegExp string
  | FArr "fvalue list"
  | FObj "(string \<times> fvalue) list"

text \<open>A \<open>string | undefined\<close> stored as a property value.\<close>

fun js_str :: "string option \<Rightarrow> fvalue" where
  "js_str None = FUndefined"
| "js_str (Some s) = FStr s"

text \<open>
  Setting property \<open>k\<close> of an object (assignment, or a later key of an object
  literal after a spread): an existing key keeps its place and takes the new value, a
  new key goes last.  (JavaScript orders property names that are array indices before
  the others; the names used here are field paths and operators.)
\<close>

fun obj_set :: "string \<Rightarrow> fvalue \<Rightarrow> (string \<times> fvalue) list \<Rightarrow> (string \<times> fvalue) list" where
  "obj_set k v [] = [(k, v)]"
| "obj_set k v ((k', v') # ps) =
     (if k = k' then (k, v) # ps else (k', v') # obj_set k v ps)"

fun has_key :: "string \<Rightarrow> fvalue \<Rightarrow> bool" where
  "has_key k (FObj ps) = (k \<in> fst ` set ps)"
| "has_key k _ = False"

section \<open>Constants of the missing modules\<close>

text \<open>
  \<open>db.ts\<close> and \<open>entry.model.ts\<close> are not among the sources.  Their constants are
  parameters of the model: every theorem holds for all values of them unless it says
  otherwise.
\<close>

record db_consts =
  DB_MAX_DOCUMENTS_PER_CALL :: int
  DB_COLLATION_LOCALE_DEFAULT_FOR_INSENSITIVITY :: string
  DB_COLLATION_STRENGTH_FOR_CASE_INSENSITIVITY :: int
  DB_COLLATION_STRENGTH_FOR_SENSITIVITY :: int
  DB_COLLATION_LOCALES :: "string list"
  ENTRY_SEM_DOMS_ABBREV :: string
  ENTRY_SEM_DOMS_ABBREV_VALUE :: string
  ENTRY_SEM_DOMS_NAME_VALUE :: string
  ENTRY_PART_OF_SPEECH_VALUE :: string
  ENTRY_MAIN_HEADWORD_VALUE :: string
  ENTRY_DEFINITION_VALUE :: string

text \<open>
  Modelled from the spec: \<open>getDbSkip\<close> of \<open>utils.ts\<close>, which is not among the
  sources.  The spec gives the pagination offset as \<open>(pageNumber - 1) * pageLimit\<close>.
\<close>

definition getDbSkip :: "jsnum \<Rightarrow> jsnum \<Rightarrow> jsnum" where
  "getDbSkip pageNumber pageLimit = js_mul (js_sub pageNumber (Num 1)) pageLimit"

section \<open>The store and the response envelope\<close>

datatype js_error = JsError (name: string) (message: string)

record collation =
  "locale" :: string
  strength :: int

text \<open>The cursor combinators chained on \<open>find\<close> and \<open>aggregate\<close>, in call order.\<close>

datatype cursor_mod = Collation collation | Skip jsnum | Limit jsnum

text \<open>
  One call on the entries collection with the arguments the source gives it.
  \<open>countDocuments\<close> is only ever called with a filter: no options, so no collation.
\<close>

datatype db_op =
    CountDocuments fvalue
  | Find fvalue "cursor_mod list"
  | Aggregate "fvalue list" "cursor_mod list"

text \<open>
  What lies outside the function: whether \<open>connectToDB\<close> rejects, whether
  \<open>new RegExp(src)\<close> throws (a SyntaxError on an invalid pattern), and what the store
  answers to each call.  \<open>Inl\<close> is a thrown error.
\<close>

record 'e env =
  connectToDB :: "js_error option"
  new_RegExp :: "string \<Rightarrow> js_error option"
  countDocuments :: "fvalue \<Rightarrow> js_error + nat"
  findDocs :: "fvalue \<Rightarrow> cursor_mod list \<Rightarrow> js_error + 'e list"
  aggregateDocs :: "fvalue list \<Rightarrow> cursor_mod list \<Rightarrow> js_error + 'e list"

text \<open>
  Modelled from the spec: the envelope of \<open>response.ts\<close>, which is not among the
  sources.  One constructor per function the source calls: \<open>Response.success\<close> with
  a list of entries or with \<open>{count}\<close>, \<open>Response.notFound\<close> with its payload,
  \<open>Response.failure\<close> with \<open>errorType\<close> and \<open>errorMessage\<close>, and
  \<open>Response.badRequest\<close> with its message.
\<close>

datatype 'e payload = Entries "'e list" | CountOnly nat

datatype 'e response =
    Success "'e payload"
  | NotFound fvalue
  | Failure string string
  | BadRequest string

text \<open>The \<open>catch\<close> clause: \<open>Response.failure({errorType: error.name, errorMessage: error.message})\<close>.\<close>

definition failure :: "js_error \<Rightarrow> 'e response" where
  "failure error = Failure (name error) (message error)"

section \<open>searchEntries\<close>

record SearchEntriesArguments =
  pageNumber :: jsnum
  pageLimit :: jsnum
  dictionaryId :: "string option"
  searchSemDoms :: "string option"
  semDomAbbrev :: "string option"
  lang :: "string option"
  "text" :: string
  countTotalOnly :: "string option"
  partOfSpeech :: "string option"
  mainLang :: "string option"
  matchPartial :: "string option"
  matchAccents :: "string option"
  dollar_language :: string

text \<open>\<open>primaryFilter\<close> as declared: \<open>{ dictionaryId: args.dictionaryId }\<close>.\<close>

definition primaryFilter_init :: "SearchEntriesArguments \<Rightarrow> (string \<times> fvalue) list" where
  "primaryFilter_init args = [(''dictionaryId'', js_str (dictionaryId args))]"

text \<open>\<open>abbreviationRegex\<close>: \<open>{ $in: [semDomAbbrev, new RegExp(`^${semDomAbbrev}.`)] }\<close>.\<close>

definition abbreviationPattern :: "SearchEntriesArguments \<Rightarrow> string" where
  "abbreviationPattern args = ''^'' @ js_template (semDomAbbrev args) @ ''.''"

definition abbreviationRegex :: "SearchEntriesArguments \<Rightarrow> fvalue" where
  "abbreviationRegex args =
     FObj [(''$in'', FArr [js_str (semDomAbbrev args), FRegExp (abbreviationPattern args)])]"

text \<open>\<open>dbFind\<close> of the semantic-domain branch.\<close>

definition semDomFind :: "db_consts \<Rightarrow> SearchEntriesArguments \<Rightarrow> fvalue" where
  "semDomFind K args =
     (if truthy (semDomAbbrev args) then
        if truthy (lang args) then
          FObj (obj_set (ENTRY_SEM_DOMS_ABBREV K)
                  (FObj [(''$elemMatch'',
                          FObj [(''lang'', js_str (lang args)),
                                (''value'', abbreviationRegex args)])])
                  (primaryFilter_init args))
        else
          FObj (obj_set (ENTRY_SEM_DOMS_ABBREV_VALUE K) (abbreviationRegex args)
                  (primaryFilter_init args))
      else
        FObj (obj_set (ENTRY_SEM_DOMS_NAME_VALUE K) (FStr (text args))
                (primaryFilter_init args)))"

text \<open>\<open>regexFilter\<close>: \<open>{ $regex: args.text, $options: 'i' }\<close>.\<close>

definition regexFilter :: "SearchEntriesArguments \<Rightarrow> fvalue" where
  "regexFilter args = FObj [(''$regex'', FStr (text args)), (''$options'', FStr ''i'')]"

text \<open>\<open>primaryFilter\<close> after the optional part-of-speech assignment.\<close>

definition primaryFilter :: "db_consts \<Rightarrow> SearchEntriesArguments \<Rightarrow> (string \<times> fvalue) list" where
  "primaryFilter K args =
     (if truthy (partOfSpeech args)
      then obj_set (ENTRY_PART_OF_SPEECH_VALUE K) (js_str (partOfSpeech args))
             (primaryFilter_init args)
      else primaryFilter_init args)"

text \<open>\<open>locale\<close> after the \<open>if (args.lang)\<close> block.\<close>

definition search_locale :: "db_consts \<Rightarrow> SearchEntriesArguments \<Rightarrow> string" where
  "search_locale K args =
     (case lang args of
        None \<Rightarrow> DB_COLLATION_LOCALE_DEFAULT_FOR_INSENSITIVITY K
      | Some l \<Rightarrow>
          if l \<noteq> [] \<and> l \<in> set (DB_COLLATION_LOCALES K) then l
          else DB_COLLATION_LOCALE_DEFAULT_FOR_INSENSITIVITY K)"

definition langFieldToFilter :: "SearchEntriesArguments \<Rightarrow> string" where
  "langFieldToFilter args =
     (if truthy (mainLang args) \<and> mainLang args = lang args then ''mainHeadWord''
      else ''senses.definitionOrGloss'')"

definition langFilter :: "db_consts \<Rightarrow> SearchEntriesArguments \<Rightarrow> fvalue" where
  "langFilter K args =
     (if truthy (lang args) then
        FObj [(langFieldToFilter args,
               FObj [(''$elemMatch'',
                      FObj [(''lang'', js_str (lang args)), (''value'', regexFilter args)])])]
      else
        FObj [(''$or'',
               FArr [FObj [(ENTRY_MAIN_HEADWORD_VALUE K, regexFilter args)],
                     FObj [(ENTRY_DEFINITION_VALUE K, regexFilter args)]])])"

definition dictionaryPartialSearch :: "db_consts \<Rightarrow> SearchEntriesArguments \<Rightarrow> fvalue" where
  "dictionaryPartialSearch K args =
     FObj [(''$and'', FArr [FObj (primaryFilter K args), langFilter K args])]"

text \<open>\<open>strength\<close> inside the partial-match branch.\<close>

definition search_strength :: "db_consts \<Rightarrow> SearchEntriesArguments \<Rightarrow> int" where
  "search_strength K args =
     (if matchAccents args = Some ''1'' then DB_COLLATION_STRENGTH_FOR_SENSITIVITY K
      else DB_COLLATION_STRENGTH_FOR_CASE_INSENSITIVITY K)"

text \<open>\<open>$text\<close>: \<open>{ $search: `"${args.text}"`, $language: args.$language, $diacriticSensitive }\<close>.\<close>

definition text_predicate :: "SearchEntriesArguments \<Rightarrow> fvalue" where
  "text_predicate args =
     FObj [(''$search'', FStr (CHR 0x22 # text args @ [CHR 0x22])),
           (''$language'', FStr (dollar_language args)),
           (''$diacriticSensitive'', FBool (matchAccents args = Some ''1''))]"

definition dictionaryFulltextSearch :: "db_consts \<Rightarrow> SearchEntriesArguments \<Rightarrow> fvalue" where
  "dictionaryFulltextSearch K args =
     FObj (obj_set ''$text'' (text_predicate args) (primaryFilter K args))"

text \<open>\<open>dbFind\<close> of the full-text branch with \<open>lang\<close>: the two \<open>$match\<close> stages.\<close>

definition fulltextPipeline :: "db_consts \<Rightarrow> SearchEntriesArguments \<Rightarrow> fvalue list" where
  "fulltextPipeline K args =
     [FObj [(''$match'', dictionaryFulltextSearch K args)],
      FObj [(''$match'', langFilter K args)]]"

text \<open>
  The three calls on the collection, inside the \<open>try\<close>: each yields the response
  (the \<open>catch\<close> clause's when the call throws, the continuation's otherwise) and the
  call made.
\<close>

definition try_count :: "'e env \<Rightarrow> fvalue \<Rightarrow> 'e response \<times> db_op list" where
  "try_count E f =
     (case countDocuments E f of
        Inl error \<Rightarrow> (failure error, [CountDocuments f])
      | Inr count \<Rightarrow> (Success (CountOnly count), [CountDocuments f]))"

definition try_find ::
  "'e env \<Rightarrow> fvalue \<Rightarrow> cursor_mod list \<Rightarrow> ('e list \<Rightarrow> 'e response) \<Rightarrow> 'e response \<times> db_op list" where
  "try_find E f ms k =
     (case findDocs E f ms of
        Inl error \<Rightarrow> (failure error, [Find f ms])
      | Inr entries \<Rightarrow> (k entries, [Find f ms]))"

definition try_aggregate ::
  "'e env \<Rightarrow> fvalue list \<Rightarrow> cursor_mod list \<Rightarrow> ('e list \<Rightarrow> 'e response) \<Rightarrow> 'e response \<times> db_op list" where
  "try_aggregate E p ms k =
     (case aggregateDocs E p ms of
        Inl error \<Rightarrow> (failure error, [Aggregate p ms])
      | Inr entries \<Rightarrow> (k entries, [Aggregate p ms]))"

text \<open>The end of the function: \<open>if (!entries.length) notFound([{}]) else success(entries)\<close>.\<close>

definition shape_entries :: "'e list \<Rightarrow> 'e response" where
  "shape_entries entries =
     (if entries = [] then NotFound (FArr [FObj []]) else Success (Entries entries))"

text \<open>
  \<open>searchEntries\<close>: the response, and the calls made on the collection in order.
  The branches stand in the source's order.
\<close>

definition searchEntries ::
  "db_consts \<Rightarrow> 'e env \<Rightarrow> SearchEntriesArguments \<Rightarrow> 'e response \<times> db_op list" where
  "searchEntries K E args =
     (case connectToDB E of
        Some error \<Rightarrow> (failure error, [])
      | None \<Rightarrow>
          let dbSkip = getDbSkip (pageNumber args) (pageLimit args) in
          if searchSemDoms args = Some ''1'' then
            (case (if truthy (semDomAbbrev args) then new_RegExp E (abbreviationPattern args)
                   else None) of
               Some error \<Rightarrow> (failure error, [])
             | None \<Rightarrow>
                 if countTotalOnly args = Some ''1'' then try_count E (semDomFind K args)
                 else try_find E (semDomFind K args) [Skip dbSkip, Limit (pageLimit args)]
                        (\<lambda>entries. Success (Entries entries)))
          else if matchPartial args = Some ''1'' then
            if countTotalOnly args = Some ''1'' then
              try_count E (dictionaryPartialSearch K args)
            else
              try_find E (dictionaryPartialSearch K args)
                [Collation \<lparr>locale = search_locale K args, strength = search_strength K args\<rparr>,
                 Skip dbSkip, Limit (pageLimit args)]
                shape_entries
          else if truthy (lang args) then
            if countTotalOnly args = Some ''1'' then
              try_aggregate E (fulltextPipeline K args) []
                (\<lambda>entries. Success (CountOnly (length entries)))
            else
              try_aggregate E (fulltextPipeline K args) [Skip dbSkip, Limit (pageLimit args)]
                shape_entries
          else
            if countTotalOnly args = Some ''1'' then
              try_count E (dictionaryFulltextSearch K args)
            else
              try_find E (dictionaryFulltextSearch K args) [Skip dbSkip, Limit (pageLimit args)]
                shape_entries)"

section \<open>The handler\<close>

text \<open>
  An API Gateway event as far as the handler reads it: \<open>pathParameters\<close> and
  \<open>queryStringParameters\<close>, each possibly \<open>null\<close>.
\<close>

record event =
  pathParameters :: "(string \<rightharpoonup> string) option"
  queryStringParameters :: "(string \<rightharpoonup> string) option"

text \<open>\<open>event.queryStringParameters?.k\<close> and \<open>event.pathParameters?.k\<close>.\<close>

definition qs :: "event \<Rightarrow> string \<Rightarrow> string option" where
  "qs ev k = (case queryStringParameters ev of None \<Rightarrow> None | Some m \<Rightarrow> m k)"

definition path_param :: "event \<Rightarrow> string \<Rightarrow> string option" where
  "path_param ev k = (case pathParameters ev of None \<Rightarrow> None | Some m \<Rightarrow> m k)"

text \<open>\<open>$language = event.queryStringParameters?.stemmingLanguage ?? 'none'\<close>.\<close>

definition handler_language :: "event \<Rightarrow> string" where
  "handler_language ev = (case qs ev ''stemmingLanguage'' of None \<Rightarrow> ''none'' | Some s \<Rightarrow> s)"

text \<open>\<open>pageNumber = Math.max(Number(event.queryStringParameters?.pageNumber ?? '1'), 1)\<close>.\<close>

definition handler_pageNumber :: "event \<Rightarrow> jsnum option" where
  "handler_pageNumber ev =
     map_option (\<lambda>n. Math_max n (Num 1))
       (js_Number (case qs ev ''pageNumber'' of None \<Rightarrow> ''1'' | Some s \<Rightarrow> s))"

text \<open>
  \<open>pageLimit = Math.min(Math.max(Number(event.queryStringParameters?.pageLimit ??
  DB_MAX_DOCUMENTS_PER_CALL), 1), DB_MAX_DOCUMENTS_PER_CALL)\<close>; \<open>Number\<close> of the
  numeric constant is the constant.
\<close>

definition handler_pageLimit :: "db_consts \<Rightarrow> event \<Rightarrow> jsnum option" where
  "handler_pageLimit K ev =
     map_option
       (\<lambda>n. Math_min (Math_max n (Num 1)) (Num (DB_MAX_DOCUMENTS_PER_CALL K)))
       (case qs ev ''pageLimit'' of
          None \<Rightarrow> Some (Num (DB_MAX_DOCUMENTS_PER_CALL K))
        | Some s \<Rightarrow> js_Number s)"

text \<open>The argument record the handler builds for \<open>searchEntries\<close>.\<close>

definition handler_args ::
  "event \<Rightarrow> jsnum \<Rightarrow> jsnum \<Rightarrow> string \<Rightarrow> SearchEntriesArguments" where
  "handler_args ev pn pl t =
     \<lparr>pageNumber = pn, pageLimit = pl,
      dictionaryId = path_param ev ''dictionaryId'',
      searchSemDoms = qs ev ''searchSemDoms'',
      semDomAbbrev = qs ev ''semDomAbbrev'',
      lang = qs ev ''lang'',
      text = t,
      countTotalOnly = qs ev ''countTotalOnly'',
      partOfSpeech = qs ev ''partOfSpeech'',
      mainLang = qs ev ''mainLang'',
      matchPartial = qs ev ''matchPartial'',
      matchAccents = qs ev ''matchAccents'',
      dollar_language = handler_language ev\<rparr>"

text \<open>
  \<open>handler\<close>: the response given to the callback and the calls made on the
  collection.  \<open>None\<close> only when a page parameter is a string on which this model of
  \<open>Number\<close> is silent.
\<close>

definition handler ::
  "db_consts \<Rightarrow> 'e env \<Rightarrow> event \<Rightarrow> ('e response \<times> db_op list) option" where
  "handler K E ev =
     (case handler_pageNumber ev of
        None \<Rightarrow> None
      | Some pn \<Rightarrow>
          (case handler_pageLimit K ev of
             None \<Rightarrow> None
           | Some pl \<Rightarrow>
               (case qs ev ''text'' of
                  None \<Rightarrow> Some (BadRequest ''Search text must be specified.'', [])
                | Some t \<Rightarrow>
                    if t = [] then Some (BadRequest ''Search text must be specified.'', [])
                    else Some (searchEntries K E (handler_args ev pn pl t)))))"

section \<open>Reading the filters\<close>

text \<open>
  A regular expression built with \<open>new RegExp(src)\<close> and evaluated by the store,
  for the patterns the planner itself builds and for single-line values: \<open>^\<close>, then
  characters that stand for themselves and \<open>.\<close>, which stands for any character.
  A pattern with any other syntax character is outside the fragment, and so is a value
  that holds a line terminator, on which the dot of JavaScript and that of the store's
  engine need not agree (\<open>None\<close> in both cases).  The expression is not anchored at
  its end.
\<close>

datatype re_atom = AnyChar | Lit char

definition is_syntax_char :: "char \<Rightarrow> bool" where
  "is_syntax_char c = (c \<in> set ''^$.*+?()[]{}|'' \<or> c = CHR 0x5C)"

definition line_terminator :: "char \<Rightarrow> bool" where
  "line_terminator c = (c = CHR 0x0A \<or> c = CHR 0x0D)"

fun parse_atoms :: "string \<Rightarrow> re_atom list option" where
  "parse_atoms [] = Some []"
| "parse_atoms (c # cs) =
     (if c = CHR ''.'' then map_option ((#) AnyChar) (parse_atoms cs)
      else if is_syntax_char c then None
      else map_option ((#) (Lit c)) (parse_atoms cs))"

fun match_prefix :: "re_atom list \<Rightarrow> string \<Rightarrow> bool" where
  "match_prefix [] s = True"
| "match_prefix (a # as) [] = False"
| "match_prefix (AnyChar # as) (c # cs) = match_prefix as cs"
| "match_prefix (Lit x # as) (c # cs) = (x = c \<and> match_prefix as cs)"

definition RegExp_test :: "string \<Rightarrow> string \<Rightarrow> bool option" where
  "RegExp_test src s =
     (case src of
        [] \<Rightarrow> None
      | c # body \<Rightarrow>
          if c = CHR ''^'' \<and> \<not> list_ex line_terminator s
          then map_option (\<lambda>atoms. match_prefix atoms s) (parse_atoms body)
          else None)"

text \<open>
  The store's \<open>$in\<close> on a string value: the value equals one of the listed strings or
  matches one of the listed regular expressions.
\<close>

fun item_matches :: "fvalue \<Rightarrow> string \<Rightarrow> bool option" where
  "item_matches (FStr s) v = Some (v = s)"
| "item_matches (FRegExp src) v = RegExp_test src v"
| "item_matches _ v = None"

fun in_matches :: "fvalue list \<Rightarrow> string \<Rightarrow> bool option" where
  "in_matches [] v = Some False"
| "in_matches (i # is) v =
     (case item_matches i v of
        Some True \<Rightarrow> Some True
      | Some False \<Rightarrow> in_matches is v
      | None \<Rightarrow> (case in_matches is v of Some True \<Rightarrow> Some True | _ \<Rightarrow> None))"

fun cond_matches :: "fvalue \<Rightarrow> string \<Rightarrow> bool option" where
  "cond_matches (FObj [(k, FArr items)]) v = (if k = ''$in'' then in_matches items v else None)"
| "cond_matches _ v = None"

text \<open>The collation a call carries, if any.\<close>

fun mods_collation :: "cursor_mod list \<Rightarrow> collation option" where
  "mods_collation [] = None"
| "mods_collation (Collation c # ms) = Some c"
| "mods_collation (_ # ms) = mods_collation ms"

fun op_collation :: "db_op \<Rightarrow> collation option" where
  "op_collation (CountDocuments f) = None"
| "op_collation (Find f ms) = mods_collation ms"
| "op_collation (Aggregate p ms) = mods_collation ms"

fun op_filter :: "db_op \<Rightarrow> fvalue list" where
  "op_filter (CountDocuments f) = [f]"
| "op_filter (Find f ms) = [f]"
| "op_filter (Aggregate p ms) = p"

text \<open>Property \<open>k\<close> of an object, and the \<open>$text\<close> predicate a call carries: in
  its filter, or in the \<open>$match\<close> of the first stage of its pipeline.\<close>

fun obj_get :: "string \<Rightarrow> fvalue \<Rightarrow> fvalue option" where
  "obj_get k (FObj ps) = map_of ps k"
| "obj_get k _ = None"

fun op_text_predicate :: "db_op \<Rightarrow> fvalue option" where
  "op_text_predicate (CountDocuments f) = obj_get ''$text'' f"
| "op_text_predicate (Find f ms) = obj_get ''$text'' f"
| "op_text_predicate (Aggregate [] ms) = None"
| "op_text_predicate (Aggregate (stage # stages) ms) =
     (case obj_get ''$match'' stage of None \<Rightarrow> None | Some f \<Rightarrow> obj_get ''$text'' f)"

section \<open>Strategies\<close>

datatype strategy = SemanticDomain | PartialMatch | FullTextScoped | FullTextUnscoped

text \<open>The classification in the spec's words (its section 4.1).\<close>

definition spec_strategy :: "SearchEntriesArguments \<Rightarrow> strategy" where
  "spec_strategy args =
     (if searchSemDoms args = Some ''1'' then SemanticDomain
      else if matchPartial args = Some ''1'' then PartialMatch
      else if truthy (lang args) then FullTextScoped
      else FullTextUnscoped)"

text \<open>
  The strategy a call on the collection belongs to, read off the call itself: only the
  scoped full-text search aggregates, only the partial match has a top-level \<open>$and\<close>,
  only the full-text filter has a top-level \<open>$text\<close>.
\<close>

fun op_strategy :: "db_op \<Rightarrow> strategy" where
  "op_strategy (Aggregate p ms) = FullTextScoped"
| "op_strategy (Find f ms) =
     (if has_key ''$and'' f then PartialMatch
      else if has_key ''$text'' f then FullTextUnscoped else SemanticDomain)"
| "op_strategy (CountDocuments f) =
     (if has_key ''$and'' f then PartialMatch
      else if has_key ''$text'' f then FullTextUnscoped else SemanticDomain)"

text \<open>A property name that is a query operator, not a field path.\<close>

definition is_operator :: "string \<Rightarrow> bool" where
  "is_operator k = (case k of [] \<Rightarrow> False | c # _ \<Rightarrow> c = CHR ''$'')"

definition field_paths :: "db_consts \<Rightarrow> bool" where
  "field_paths K =
     (\<not> is_operator (ENTRY_SEM_DOMS_ABBREV K) \<and>
      \<not> is_operator (ENTRY_SEM_DOMS_ABBREV_VALUE K) \<and>
      \<not> is_operator (ENTRY_SEM_DOMS_NAME_VALUE K) \<and>
      \<not> is_operator (ENTRY_PART_OF_SPEECH_VALUE K))"

section \<open>Sample data\<close>

text \<open>
  Values for the constants of the missing modules, used where a statement is
  evaluated on a concrete request.  The page limit of 100 is the one the handler's
  header comment documents; the others are placeholders.
\<close>

definition sample_consts :: db_consts where
  "sample_consts =
     \<lparr>DB_MAX_DOCUMENTS_PER_CALL = 100,
      DB_COLLATION_LOCALE_DEFAULT_FOR_INSENSITIVITY = ''en'',
      DB_COLLATION_STRENGTH_FOR_CASE_INSENSITIVITY = 1,
      DB_COLLATION_STRENGTH_FOR_SENSITIVITY = 3,
      DB_COLLATION_LOCALES = [''en'', ''fr'', ''es''],
      ENTRY_SEM_DOMS_ABBREV = ''senses.semanticDomains.abbreviation'',
      ENTRY_SEM_DOMS_ABBREV_VALUE = ''senses.semanticDomains.abbreviation.value'',
      ENTRY_SEM_DOMS_NAME_VALUE = ''senses.semanticDomains.name.value'',
      ENTRY_PART_OF_SPEECH_VALUE = ''senses.partOfSpeech.value'',
      ENTRY_MAIN_HEADWORD_VALUE = ''mainHeadWord.value'',
      ENTRY_DEFINITION_VALUE = ''senses.definitionOrGloss.value''\<rparr>"

text \<open>A store with no entries: every query answers the empty list, every count zero.\<close>

definition empty_store :: "nat env" where
  "empty_store =
     \<lparr>connectToDB = None,
      new_RegExp = (\<lambda>src. None),
      countDocuments = (\<lambda>f. Inr 0),
      findDocs = (\<lambda>f ms. Inr []),
      aggregateDocs = (\<lambda>p ms. Inr [])\<rparr>"

definition sample_args :: SearchEntriesArguments where
  "sample_args =
     \<lparr>pageNumber = Num 1, pageLimit = Num 100,
      dictionaryId = Some ''d1'',
      searchSemDoms = None, semDomAbbrev = None, lang = None,
      text = ''run'',
      countTotalOnly = None, partOfSpeech = None, mainLang = None,
      matchPartial = None, matchAccents = None,
      dollar_language = ''none''\<rparr>"

text \<open>A store that answers every query with the same two entries.\<close>

definition two_entry_store :: "nat env" where
  "two_entry_store =
     \<lparr>connectToDB = None,
      new_RegExp = (\<lambda>src. None),
      countDocuments = (\<lambda>f. Inr 2),
      findDocs = (\<lambda>f ms. Inr [7, 8]),
      aggregateDocs = (\<lambda>p ms. Inr [7, 8])\<rparr>"

text \<open>Two events: a plain full-text request, and one whose page parameters are not
  numbers.\<close>

definition sample_event :: event where
  "sample_event =
     \<lparr>pathParameters = Some [''dictionaryId'' \<mapsto> ''d1''],
      queryStringParameters = Some [''text'' \<mapsto> ''run'', ''matchAccents'' \<mapsto> ''1'']\<rparr>"

definition nan_event :: event where
  "nan_event =
     \<lparr>pathParameters = Some [''dictionaryId'' \<mapsto> ''d1''],
      queryStringParameters =
        Some [''text'' \<mapsto> ''run'', ''pageNumber'' \<mapsto> ''abc'', ''pageLimit'' \<mapsto> ''abc'']\<rparr>"

section \<open>Basic facts\<close>

lemmas filter_defs = primaryFilter_init_def abbreviationPattern_def abbreviationRegex_def
  semDomFind_def regexFilter_def primaryFilter_def search_locale_def langFieldToFilter_def
  langFilter_def dictionaryPartialSearch_def search_strength_def text_predicate_def
  dictionaryFulltextSearch_def fulltextPipeline_def

lemmas try_defs = try_count_def try_find_def try_aggregate_def

lemmas sample_defs = sample_consts_def empty_store_def two_entry_store_def sample_args_def

lemmas handler_defs = handler_def handler_pageNumber_def handler_pageLimit_def handler_args_def
  handler_language_def qs_def path_param_def

lemma keys_obj_set: "fst ` set (obj_set k v ps) = insert k (fst ` set ps)"
  by (induction k v ps rule: obj_set.induct) auto

lemma map_of_obj_set: "map_of (obj_set k v ps) k = Some v"
  by (induction k v ps rule: obj_set.induct) auto

lemma semDomFind_no_operator:
  assumes "field_paths K" and "is_operator k"
  shows "\<not> has_key k (semDomFind K args)"
proof -
  have "k \<noteq> ''dictionaryId''"
    using assms(2) by (auto simp: is_operator_def)
  moreover have "k \<noteq> ENTRY_SEM_DOMS_ABBREV K" "k \<noteq> ENTRY_SEM_DOMS_ABBREV_VALUE K"
    "k \<noteq> ENTRY_SEM_DOMS_NAME_VALUE K"
    using assms by (auto simp: field_paths_def)
  ultimately show ?thesis
    by (simp add: semDomFind_def keys_obj_set primaryFilter_init_def)
qed

lemma primaryFilter_no_operator:
  assumes "field_paths K" and "is_operator k"
  shows "k \<notin> fst ` set (primaryFilter K args)"
proof -
  have "k \<noteq> ''dictionaryId''"
    using assms(2) by (auto simp: is_operator_def)
  moreover have "k \<noteq> ENTRY_PART_OF_SPEECH_VALUE K"
    using assms by (auto simp: field_paths_def)
  ultimately show ?thesis
    by (simp add: primaryFilter_def keys_obj_set primaryFilter_init_def)
qed

lemma has_key_semDomFind:
  assumes "field_paths K"
  shows "has_key ''$and'' (semDomFind K args) = False"
    and "has_key ''$text'' (semDomFind K args) = False"
  using semDomFind_no_operator [OF assms, of "''$and''" args]
    semDomFind_no_operator [OF assms, of "''$text''" args]
  by (simp_all add: is_operator_def)

lemma has_key_partial:
  "has_key ''$and'' (dictionaryPartialSearch K args) = True"
  by (simp add: dictionaryPartialSearch_def)

lemma has_key_fulltext:
  assumes "field_paths K"
  shows "has_key ''$and'' (dictionaryFulltextSearch K args) = False"
    and "has_key ''$text'' (dictionaryFulltextSearch K args) = True"
  using primaryFilter_no_operator [OF assms, of "''$and''" args]
  by (simp_all add: dictionaryFulltextSearch_def keys_obj_set is_operator_def)

text \<open>Every branch makes one call on the collection, whether or not the call throws.\<close>

lemma snd_try [simp]:
  "snd (try_count E f) = [CountDocuments f]"
  "snd (try_find E f ms k) = [Find f ms]"
  "snd (try_aggregate E p ms k) = [Aggregate p ms]"
  by (simp_all add: try_defs split: sum.splits)

section \<open>The result shaper\<close>

text \<open>
  The three branches that reach the end of the function answer \<open>NotFound\<close> on an
  empty list: partial match, and full-text search with and without \<open>lang\<close>.
\<close>

lemma empty_result_is_not_found:
  assumes "connectToDB E = None"
    and "searchSemDoms args \<noteq> Some ''1''"
    and "countTotalOnly args \<noteq> Some ''1''"
    and "\<And>f ms. findDocs E f ms = Inr []"
    and "\<And>p ms. aggregateDocs E p ms = Inr []"
  shows "fst (searchEntries K E args) = NotFound (FArr [FObj []])"
  using assms by (simp add: searchEntries_def Let_def try_defs shape_entries_def)

text \<open>
  C1.  The claim: a query without \<open>countTotalOnly\<close> that returns the empty list is
  answered \<open>NotFound\<close>, also under semantic-domain search.  The code does not do so:
  the semantic-domain branch returns \<open>Response.success(entries)\<close> itself and never
  reaches the check on \<open>entries.length\<close>.  With \<open>searchSemDoms = '1'\<close>, no
  count requested and an empty answer of the store, the response is \<open>Success\<close> of the
  empty list.
\<close>

theorem semantic_domain_empty_result_is_success:
  assumes "connectToDB E = None"
    and "searchSemDoms args = Some ''1''"
    and "countTotalOnly args \<noteq> Some ''1''"
    and "truthy (semDomAbbrev args) \<Longrightarrow> new_RegExp E (abbreviationPattern args) = None"
    and "findDocs E (semDomFind K args)
           [Skip (getDbSkip (pageNumber args) (pageLimit args)), Limit (pageLimit args)] = Inr []"
  shows "fst (searchEntries K E args) = Success (Entries [])"
  using assms by (simp add: searchEntries_def Let_def try_find_def)

theorem semantic_domain_empty_result_is_success_witness:
  "fst (searchEntries sample_consts empty_store (sample_args\<lparr>searchSemDoms := Some ''1''\<rparr>))
     = Success (Entries [])"
  using semantic_domain_empty_result_is_success
    [of empty_store "sample_args\<lparr>searchSemDoms := Some ''1''\<rparr>" sample_consts]
  by (simp add: empty_store_def sample_args_def)

section \<open>The semantic-domain abbreviation filter\<close>

lemma parse_atoms_abbreviation:
  assumes "\<forall>c\<in>set a. c = CHR ''.'' \<or> \<not> is_syntax_char c"
  shows "parse_atoms (a @ ''.'') =
           Some (map (\<lambda>c. if c = CHR ''.'' then AnyChar else Lit c) a @ [AnyChar])"
  using assms by (induction a) auto

lemma match_prefix_abbreviation:
  "match_prefix (map (\<lambda>c. if c = CHR ''.'' then AnyChar else Lit c) a @ [AnyChar]) v =
     (\<exists>pre c rest. v = pre @ c # rest \<and> list_all2 (\<lambda>p x. p = CHR ''.'' \<or> x = p) a pre)"
proof (induction a arbitrary: v)
  case Nil
  then show ?case by (cases v) auto
next
  case (Cons p a)
  let ?R = "\<lambda>p x. p = CHR ''.'' \<or> x = p"
  show ?case
  proof (cases v)
    case Nil
    then show ?thesis by simp
  next
    case v: (Cons x xs)
    have left: "match_prefix
        (map (\<lambda>c. if c = CHR ''.'' then AnyChar else Lit c) (p # a) @ [AnyChar]) (x # xs) =
        (?R p x \<and> (\<exists>pre c rest. xs = pre @ c # rest \<and> list_all2 ?R a pre))"
      using Cons.IH [of xs] by auto
    have right: "(\<exists>pre c rest. x # xs = pre @ c # rest \<and> list_all2 ?R (p # a) pre) =
        (?R p x \<and> (\<exists>pre c rest. xs = pre @ c # rest \<and> list_all2 ?R a pre))"
    proof (rule iffI)
      assume "\<exists>pre c rest. x # xs = pre @ c # rest \<and> list_all2 ?R (p # a) pre"
      then obtain pre c rest where h: "x # xs = pre @ c # rest" "list_all2 ?R (p # a) pre"
        by blast
      from h(2) obtain y ys where pre: "pre = y # ys" "?R p y" "list_all2 ?R a ys"
        by (auto simp: list_all2_Cons1)
      from h(1) pre(1) have "x = y" "xs = ys @ c # rest" by simp_all
      with pre show "?R p x \<and> (\<exists>pre c rest. xs = pre @ c # rest \<and> list_all2 ?R a pre)"
        by blast
    next
      assume "?R p x \<and> (\<exists>pre c rest. xs = pre @ c # rest \<and> list_all2 ?R a pre)"
      then obtain pre c rest where h: "?R p x" "xs = pre @ c # rest" "list_all2 ?R a pre"
        by blast
      then have "x # xs = (x # pre) @ c # rest" "list_all2 ?R (p # a) (x # pre)" by simp_all
      then show "\<exists>pre c rest. x # xs = pre @ c # rest \<and> list_all2 ?R (p # a) pre"
        by blast
    qed
    from left right show ?thesis unfolding v by simp
  qed
qed

lemma in_matches_string_or_regexp:
  "RegExp_test src v = Some b \<Longrightarrow> in_matches [FStr a, FRegExp src] v = Some (v = a \<or> b)"
  by (cases b; cases "v = a"; simp)

text \<open>
  What the abbreviation filter accepts, for an abbreviation made of plain characters
  and dots and a single-line value: the abbreviation itself, or any value that goes on
  by at least one more character after a prefix that fits the abbreviation, each dot of
  the abbreviation standing for any character.  The character after the prefix need not
  be a dot.
\<close>

lemma abbreviation_filter_matches_iff:
  assumes "semDomAbbrev args = Some a"
    and "\<forall>c\<in>set a. c = CHR ''.'' \<or> \<not> is_syntax_char c"
    and "\<not> list_ex line_terminator v"
  shows "cond_matches (abbreviationRegex args) v =
     Some (v = a \<or>
       (\<exists>pre c rest. v = pre @ c # rest \<and> list_all2 (\<lambda>p x. p = CHR ''.'' \<or> x = p) a pre))"
proof -
  have "RegExp_test (abbreviationPattern args) v =
      Some (\<exists>pre c rest. v = pre @ c # rest \<and>
          list_all2 (\<lambda>p x. p = CHR ''.'' \<or> x = p) a pre)"
    using assms
    by (simp add: abbreviationPattern_def RegExp_test_def parse_atoms_abbreviation
        match_prefix_abbreviation)
  from in_matches_string_or_regexp [OF this, of a] show ?thesis
    using assms(1) by (simp add: abbreviationRegex_def)
qed

text \<open>
  C2.  The claim: with \<open>semDomAbbrev = "1"\<close> the filter matches \<open>"1"\<close>,
  \<open>"1.2"\<close> and \<open>"1.2.3"\<close> but neither \<open>"10"\<close> nor \<open>"2"\<close>.  The code builds
  \<open>new RegExp(`^${semDomAbbrev}.`)\<close>, in which the final dot is not escaped and so
  stands for any character: the filter does match \<open>"1"\<close>, \<open>"1.2"\<close>, \<open>"1.2.3"\<close>
  and does not match \<open>"2"\<close>, but it matches \<open>"10"\<close> as well.  This condition is the
  one stored under the abbreviation path of the filter that is executed.
\<close>

theorem abbreviation_filter_matches_10:
  assumes "semDomAbbrev args = Some ''1''"
  shows "cond_matches (abbreviationRegex args) ''1'' = Some True \<and>
         cond_matches (abbreviationRegex args) ''1.2'' = Some True \<and>
         cond_matches (abbreviationRegex args) ''1.2.3'' = Some True \<and>
         cond_matches (abbreviationRegex args) ''2'' = Some False \<and>
         cond_matches (abbreviationRegex args) ''10'' = Some True \<and>
         (\<not> truthy (lang args) \<longrightarrow>
            obj_get (ENTRY_SEM_DOMS_ABBREV_VALUE K) (semDomFind K args) =
              Some (abbreviationRegex args))"
proof -
  have evaluated: "cond_matches (abbreviationRegex args) ''1'' = Some True \<and>
         cond_matches (abbreviationRegex args) ''1.2'' = Some True \<and>
         cond_matches (abbreviationRegex args) ''1.2.3'' = Some True \<and>
         cond_matches (abbreviationRegex args) ''2'' = Some False \<and>
         cond_matches (abbreviationRegex args) ''10'' = Some True"
    using assms
    by (simp add: abbreviationRegex_def abbreviationPattern_def RegExp_test_def
        is_syntax_char_def line_terminator_def)
  have stored: "obj_get (ENTRY_SEM_DOMS_ABBREV_VALUE K) (semDomFind K args) =
              Some (abbreviationRegex args)" if "\<not> truthy (lang args)"
    using assms that by (simp add: semDomFind_def map_of_obj_set)
  from evaluated stored show ?thesis by blast
qed

theorem abbreviation_filter_matches_10_witness:
  "cond_matches (abbreviationRegex (sample_args\<lparr>searchSemDoms := Some ''1'',
      semDomAbbrev := Some ''1''\<rparr>)) ''10'' = Some True"
  using abbreviation_filter_matches_10
    [of "sample_args\<lparr>searchSemDoms := Some ''1'', semDomAbbrev := Some ''1''\<rparr>"]
  by simp

section \<open>Partial match\<close>

text \<open>
  C3.  The claim as stated, that in partial-match mode the count query runs over the
  same filter and with the same collation as the paginated find query, fails: the filter
  is the same, but \<open>countDocuments\<close> is called with the filter alone, while \<open>find\<close>
  is followed by \<open>.collation({ locale, strength })\<close>.  On the sample request the two
  calls have equal filters and different collations.
\<close>

theorem partial_count_collation_counterexample:
  "map op_filter (snd (searchEntries sample_consts empty_store
        (sample_args\<lparr>matchPartial := Some ''1'', countTotalOnly := Some ''1''\<rparr>))) =
   map op_filter (snd (searchEntries sample_consts empty_store
        (sample_args\<lparr>matchPartial := Some ''1''\<rparr>))) \<and>
   map op_collation (snd (searchEntries sample_consts empty_store
        (sample_args\<lparr>matchPartial := Some ''1'', countTotalOnly := Some ''1''\<rparr>))) \<noteq>
   map op_collation (snd (searchEntries sample_consts empty_store
        (sample_args\<lparr>matchPartial := Some ''1''\<rparr>)))"
  by (simp add: sample_defs searchEntries_def Let_def dictionaryPartialSearch_def
      primaryFilter_def primaryFilter_init_def langFilter_def regexFilter_def)

text \<open>
  C3, as amended.  For every request in partial-match mode (\<open>searchSemDoms\<close> not
  \<open>'1'\<close>, \<open>matchPartial = '1'\<close>): with \<open>countTotalOnly = '1'\<close> the one call made
  is \<open>countDocuments\<close> on the partial-match filter, and it carries no collation; with
  any other \<open>countTotalOnly\<close> the one call made is \<open>find\<close> on the same filter,
  with the collation whose locale is \<open>lang\<close> when \<open>lang\<close> is a recognised collation
  locale and the default locale otherwise, and whose strength is the sensitive one when
  \<open>matchAccents = '1'\<close> and the case-insensitive one otherwise, followed by skip and
  limit.
\<close>

theorem partial_count_same_filter_no_collation:
  assumes "connectToDB E = None"
    and "searchSemDoms args \<noteq> Some ''1''"
    and "matchPartial args = Some ''1''"
    and "c \<noteq> Some ''1''"
  shows "snd (searchEntries K E (args\<lparr>countTotalOnly := Some ''1''\<rparr>)) =
           [CountDocuments (dictionaryPartialSearch K args)] \<and>
         snd (searchEntries K E (args\<lparr>countTotalOnly := c\<rparr>)) =
           [Find (dictionaryPartialSearch K args)
              [Collation
                 \<lparr>locale =
                    (case lang args of
                       None \<Rightarrow> DB_COLLATION_LOCALE_DEFAULT_FOR_INSENSITIVITY K
                     | Some l \<Rightarrow>
                         if l \<noteq> [] \<and> l \<in> set (DB_COLLATION_LOCALES K) then l
                         else DB_COLLATION_LOCALE_DEFAULT_FOR_INSENSITIVITY K),
                  strength =
                    (if matchAccents args = Some ''1''
                     then DB_COLLATION_STRENGTH_FOR_SENSITIVITY K
                     else DB_COLLATION_STRENGTH_FOR_CASE_INSENSITIVITY K)\<rparr>,
               Skip (getDbSkip (pageNumber args) (pageLimit args)),
               Limit (pageLimit args)]] \<and>
         op_collation (CountDocuments (dictionaryPartialSearch K args)) = None"
  using assms
  by (simp add: searchEntries_def Let_def filter_defs)

theorem partial_count_same_filter_no_collation_witness:
  "snd (searchEntries sample_consts empty_store
        (sample_args\<lparr>matchPartial := Some ''1'', lang := Some ''fr'', matchAccents := Some ''1'',
                     countTotalOnly := Some ''1''\<rparr>)) =
     [CountDocuments (dictionaryPartialSearch sample_consts
        (sample_args\<lparr>matchPartial := Some ''1'', lang := Some ''fr'', matchAccents := Some ''1''\<rparr>))] \<and>
   map op_collation (snd (searchEntries sample_consts empty_store
        (sample_args\<lparr>matchPartial := Some ''1'', lang := Some ''fr'', matchAccents := Some ''1'',
                     countTotalOnly := None\<rparr>))) =
     [Some \<lparr>locale = ''fr'', strength = 3\<rparr>]"
  using partial_count_same_filter_no_collation
    [of empty_store
      "sample_args\<lparr>matchPartial := Some ''1'', lang := Some ''fr'', matchAccents := Some ''1''\<rparr>"
      None sample_consts]
  by (simp add: sample_defs)

text \<open>
  C4.  For every request that is not a semantic-domain search: when \<open>lang\<close> is
  absent (undefined or the empty string), the language filter is the disjunction
  \<open>$or\<close> of the regular expression on the headword values and on the
  definition-or-gloss values, with no language in it; when \<open>lang\<close> is present, the
  filter is on the field \<open>mainHeadWord\<close> if \<open>mainLang\<close> equals \<open>lang\<close> and on
  \<open>senses.definitionOrGloss\<close> otherwise, and it is one \<open>$elemMatch\<close> holding both
  the language and the regular expression, so one element has to satisfy both.  This
  filter is the second conjunct of the partial-match filter and the second stage of the
  scoped full-text pipeline.
\<close>

theorem language_filter_shape:
  assumes "connectToDB E = None"
    and "searchSemDoms args \<noteq> Some ''1''"
  shows "(lang args = None \<or> lang args = Some [] \<longrightarrow>
            langFilter K args =
              FObj [(''$or'',
                FArr [FObj [(ENTRY_MAIN_HEADWORD_VALUE K,
                             FObj [(''$regex'', FStr (text args)), (''$options'', FStr ''i'')])],
                      FObj [(ENTRY_DEFINITION_VALUE K,
                             FObj [(''$regex'', FStr (text args)), (''$options'', FStr ''i'')])]])]) \<and>
         (\<forall>l. lang args = Some l \<and> l \<noteq> [] \<longrightarrow>
            langFilter K args =
              FObj [(if mainLang args = Some l then ''mainHeadWord''
                     else ''senses.definitionOrGloss'',
                FObj [(''$elemMatch'',
                  FObj [(''lang'', FStr l),
                        (''value'',
                         FObj [(''$regex'', FStr (text args)), (''$options'', FStr ''i'')])])])]) \<and>
         (matchPartial args = Some ''1'' \<longrightarrow>
            (\<exists>op. snd (searchEntries K E args) = [op] \<and>
               op_filter op =
                 [FObj [(''$and'', FArr [FObj (primaryFilter K args), langFilter K args])]])) \<and>
         (matchPartial args \<noteq> Some ''1'' \<and> truthy (lang args) \<longrightarrow>
            (\<exists>op stage. snd (searchEntries K E args) = [op] \<and>
               op_filter op = [stage, FObj [(''$match'', langFilter K args)]]))"
proof -
  have unscoped: "langFilter K args =
              FObj [(''$or'',
                FArr [FObj [(ENTRY_MAIN_HEADWORD_VALUE K,
                             FObj [(''$regex'', FStr (text args)), (''$options'', FStr ''i'')])],
                      FObj [(ENTRY_DEFINITION_VALUE K,
                             FObj [(''$regex'', FStr (text args)), (''$options'', FStr ''i'')])]])]"
    if "lang args = None \<or> lang args = Some []"
    using that by (auto simp add: langFilter_def regexFilter_def)
  have scoped: "langFilter K args =
              FObj [(if mainLang args = Some l then ''mainHeadWord''
                     else ''senses.definitionOrGloss'',
                FObj [(''$elemMatch'',
                  FObj [(''lang'', FStr l),
                        (''value'',
                         FObj [(''$regex'', FStr (text args)), (''$options'', FStr ''i'')])])])]"
    if "lang args = Some l" and "l \<noteq> []" for l
    using that by (simp add: langFilter_def regexFilter_def langFieldToFilter_def)
  have partial: "\<exists>op. snd (searchEntries K E args) = [op] \<and>
               op_filter op =
                 [FObj [(''$and'', FArr [FObj (primaryFilter K args), langFilter K args])]]"
    if "matchPartial args = Some ''1''"
    using assms that by (simp add: searchEntries_def Let_def dictionaryPartialSearch_def)
  have staged: "\<exists>op stage. snd (searchEntries K E args) = [op] \<and>
               op_filter op = [stage, FObj [(''$match'', langFilter K args)]]"
    if "matchPartial args \<noteq> Some ''1''" and "truthy (lang args)"
    using assms that by (simp add: searchEntries_def Let_def fulltextPipeline_def)
  from unscoped scoped partial staged show ?thesis by blast
qed

theorem language_filter_shape_witness:
  "langFilter sample_consts (sample_args\<lparr>lang := Some ''fr'', mainLang := Some ''fr''\<rparr>) =
     FObj [(''mainHeadWord'',
       FObj [(''$elemMatch'',
         FObj [(''lang'', FStr ''fr''),
               (''value'', FObj [(''$regex'', FStr ''run''), (''$options'', FStr ''i'')])])])] \<and>
   langFilter sample_consts (sample_args\<lparr>lang := Some ''en'', mainLang := Some ''fr''\<rparr>) =
     FObj [(''senses.definitionOrGloss'',
       FObj [(''$elemMatch'',
         FObj [(''lang'', FStr ''en''),
               (''value'', FObj [(''$regex'', FStr ''run''), (''$options'', FStr ''i'')])])])] \<and>
   langFilter sample_consts sample_args =
     FObj [(''$or'',
       FArr [FObj [(''mainHeadWord.value'',
                    FObj [(''$regex'', FStr ''run''), (''$options'', FStr ''i'')])],
             FObj [(''senses.definitionOrGloss.value'',
                    FObj [(''$regex'', FStr ''run''), (''$options'', FStr ''i'')])]])]"
  using language_filter_shape
      [of empty_store "sample_args\<lparr>lang := Some ''fr'', mainLang := Some ''fr''\<rparr>" sample_consts]
    language_filter_shape
      [of empty_store "sample_args\<lparr>lang := Some ''en'', mainLang := Some ''fr''\<rparr>" sample_consts]
    language_filter_shape [of empty_store sample_args sample_consts]
  by (simp add: sample_consts_def empty_store_def sample_args_def)

section \<open>Full-text search\<close>

lemma text_predicate_of_fulltext:
  "obj_get ''$text'' (dictionaryFulltextSearch K args) = Some (text_predicate args)"
  by (simp add: dictionaryFulltextSearch_def map_of_obj_set)

text \<open>
  C5.  For every full-text request with \<open>lang\<close> set (\<open>searchSemDoms\<close> and
  \<open>matchPartial\<close> both not \<open>'1'\<close>): the one call made is an aggregation over two
  \<open>$match\<close> stages in this order, the filter holding the \<open>$text\<close> predicate and
  then the language filter; with \<open>countTotalOnly = '1'\<close> the aggregation has neither
  skip nor limit, and the count returned is the length of the list it yields.
\<close>

theorem fulltext_scoped_is_two_stage_pipeline:
  assumes "connectToDB E = None"
    and "searchSemDoms args \<noteq> Some ''1''"
    and "matchPartial args \<noteq> Some ''1''"
    and "truthy (lang args)"
  shows "snd (searchEntries K E args) =
           [Aggregate
              [FObj [(''$match'', dictionaryFulltextSearch K args)],
               FObj [(''$match'', langFilter K args)]]
              (if countTotalOnly args = Some ''1'' then []
               else [Skip (getDbSkip (pageNumber args) (pageLimit args)),
                     Limit (pageLimit args)])] \<and>
         obj_get ''$text'' (dictionaryFulltextSearch K args) = Some (text_predicate args) \<and>
         (\<forall>entries. countTotalOnly args = Some ''1'' \<and>
            aggregateDocs E
              [FObj [(''$match'', dictionaryFulltextSearch K args)],
               FObj [(''$match'', langFilter K args)]] [] = Inr entries \<longrightarrow>
            fst (searchEntries K E args) = Success (CountOnly (length entries)))"
proof -
  have calls: "snd (searchEntries K E args) =
           [Aggregate
              [FObj [(''$match'', dictionaryFulltextSearch K args)],
               FObj [(''$match'', langFilter K args)]]
              (if countTotalOnly args = Some ''1'' then []
               else [Skip (getDbSkip (pageNumber args) (pageLimit args)),
                     Limit (pageLimit args)])]"
    using assms by (simp add: searchEntries_def Let_def fulltextPipeline_def)
  have count: "fst (searchEntries K E args) = Success (CountOnly (length entries))"
    if "countTotalOnly args = Some ''1''"
      and "aggregateDocs E
              [FObj [(''$match'', dictionaryFulltextSearch K args)],
               FObj [(''$match'', langFilter K args)]] [] = Inr entries"
    for entries
    using assms that
    by (simp add: searchEntries_def Let_def fulltextPipeline_def try_aggregate_def)
  from calls text_predicate_of_fulltext count show ?thesis by blast
qed

theorem fulltext_scoped_is_two_stage_pipeline_witness:
  "searchEntries sample_consts two_entry_store
     (sample_args\<lparr>lang := Some ''fr'', countTotalOnly := Some ''1''\<rparr>) =
   (Success (CountOnly 2),
    [Aggregate
       [FObj [(''$match'', dictionaryFulltextSearch sample_consts
                 (sample_args\<lparr>lang := Some ''fr'', countTotalOnly := Some ''1''\<rparr>))],
        FObj [(''$match'', langFilter sample_consts
                 (sample_args\<lparr>lang := Some ''fr'', countTotalOnly := Some ''1''\<rparr>))]] []])"
  using fulltext_scoped_is_two_stage_pipeline
    [of two_entry_store "sample_args\<lparr>lang := Some ''fr'', countTotalOnly := Some ''1''\<rparr>"
       sample_consts]
  by (simp add: two_entry_store_def sample_args_def prod_eq_iff)

section \<open>Count-only requests\<close>

text \<open>
  C6.  For every request with \<open>countTotalOnly = '1'\<close>, whichever strategy is
  selected: the response is never \<open>NotFound\<close> and never carries entries; it is
  \<open>Success\<close> of a count or, when something threw, \<open>Failure\<close>.  The count is the
  store's: under semantic-domain search, partial match and unscoped full-text search it
  is the number \<open>countDocuments\<close> answers for the filter of that strategy, and under
  scoped full-text search it is the length of the list the unpaginated aggregation
  yields, zero included.  When the call throws, or the connection is refused, the
  response is the \<open>Failure\<close> of that error.
\<close>

theorem count_only_never_not_found:
  assumes "countTotalOnly args = Some ''1''"
  shows "(\<forall>p. fst (searchEntries K E args) \<noteq> NotFound p) \<and>
         (\<forall>es. fst (searchEntries K E args) \<noteq> Success (Entries es)) \<and>
         ((\<exists>n. fst (searchEntries K E args) = Success (CountOnly n)) \<or>
          (\<exists>t m. fst (searchEntries K E args) = Failure t m)) \<and>
         (connectToDB E = None \<and> (\<forall>src. new_RegExp E src = None) \<and>
          (\<forall>f. \<exists>n. countDocuments E f = Inr n) \<and>
          (\<forall>p ms. \<exists>es. aggregateDocs E p ms = Inr es) \<longrightarrow>
            (\<exists>n. fst (searchEntries K E args) = Success (CountOnly n))) \<and>
         (connectToDB E = None \<and> searchSemDoms args = Some ''1'' \<and>
          (truthy (semDomAbbrev args) \<longrightarrow> new_RegExp E (abbreviationPattern args) = None) \<longrightarrow>
            (\<forall>n. countDocuments E (semDomFind K args) = Inr n \<longrightarrow>
               fst (searchEntries K E args) = Success (CountOnly n)) \<and>
            (\<forall>e. countDocuments E (semDomFind K args) = Inl e \<longrightarrow>
               fst (searchEntries K E args) = Failure (name e) (message e))) \<and>
         (connectToDB E = None \<and> searchSemDoms args \<noteq> Some ''1'' \<and>
          matchPartial args = Some ''1'' \<longrightarrow>
            (\<forall>n. countDocuments E (dictionaryPartialSearch K args) = Inr n \<longrightarrow>
               fst (searchEntries K E args) = Success (CountOnly n)) \<and>
            (\<forall>e. countDocuments E (dictionaryPartialSearch K args) = Inl e \<longrightarrow>
               fst (searchEntries K E args) = Failure (name e) (message e))) \<and>
         (connectToDB E = None \<and> searchSemDoms args \<noteq> Some ''1'' \<and>
          matchPartial args \<noteq> Some ''1'' \<and> truthy (lang args) \<longrightarrow>
            (\<forall>es. aggregateDocs E (fulltextPipeline K args) [] = Inr es \<longrightarrow>
               fst (searchEntries K E args) = Success (CountOnly (length es))) \<and>
            (\<forall>e. aggregateDocs E (fulltextPipeline K args) [] = Inl e \<longrightarrow>
               fst (searchEntries K E args) = Failure (name e) (message e))) \<and>
         (connectToDB E = None \<and> searchSemDoms args \<noteq> Some ''1'' \<and>
          matchPartial args \<noteq> Some ''1'' \<and> \<not> truthy (lang args) \<longrightarrow>
            (\<forall>n. countDocuments E (dictionaryFulltextSearch K args) = Inr n \<longrightarrow>
               fst (searchEntries K E args) = Success (CountOnly n)) \<and>
            (\<forall>e. countDocuments E (dictionaryFulltextSearch K args) = Inl e \<longrightarrow>
               fst (searchEntries K E args) = Failure (name e) (message e))) \<and>
         (\<forall>e. connectToDB E = Some e \<longrightarrow>
            fst (searchEntries K E args) = Failure (name e) (message e))"
proof -
  have shape: "(\<exists>n. fst (searchEntries K E args) = Success (CountOnly n)) \<or>
          (\<exists>t m. fst (searchEntries K E args) = Failure t m)"
    using assms
    by (auto simp add: searchEntries_def Let_def try_defs failure_def
        split: option.splits sum.splits)
  have never1: "\<forall>p. fst (searchEntries K E args) \<noteq> NotFound p"
    using shape by auto
  have never2: "\<forall>es. fst (searchEntries K E args) \<noteq> Success (Entries es)"
    using shape by auto
  have ok: "connectToDB E = None \<and> (\<forall>src. new_RegExp E src = None) \<and>
          (\<forall>f. \<exists>n. countDocuments E f = Inr n) \<and>
          (\<forall>p ms. \<exists>es. aggregateDocs E p ms = Inr es) \<longrightarrow>
            (\<exists>n. fst (searchEntries K E args) = Success (CountOnly n))"
  proof
    assume h: "connectToDB E = None \<and> (\<forall>src. new_RegExp E src = None) \<and>
          (\<forall>f. \<exists>n. countDocuments E f = Inr n) \<and>
          (\<forall>p ms. \<exists>es. aggregateDocs E p ms = Inr es)"
    then have c: "connectToDB E = None" and r: "\<forall>src. new_RegExp E src = None"
      and n: "\<forall>f. \<exists>n. countDocuments E f = Inr n"
      and a: "\<forall>p ms. \<exists>es. aggregateDocs E p ms = Inr es" by simp_all
    obtain n1 where n1: "countDocuments E (semDomFind K args) = Inr n1" using n by blast
    obtain n2 where n2: "countDocuments E (dictionaryPartialSearch K args) = Inr n2"
      using n by blast
    obtain n3 where n3: "countDocuments E (dictionaryFulltextSearch K args) = Inr n3"
      using n by blast
    obtain es where es: "aggregateDocs E (fulltextPipeline K args) [] = Inr es"
      using a by blast
    show "\<exists>n. fst (searchEntries K E args) = Success (CountOnly n)"
      using assms c r n1 n2 n3 es by (simp add: searchEntries_def Let_def try_defs)
  qed
  have sem: "connectToDB E = None \<and> searchSemDoms args = Some ''1'' \<and>
          (truthy (semDomAbbrev args) \<longrightarrow> new_RegExp E (abbreviationPattern args) = None) \<longrightarrow>
            (\<forall>n. countDocuments E (semDomFind K args) = Inr n \<longrightarrow>
               fst (searchEntries K E args) = Success (CountOnly n)) \<and>
            (\<forall>e. countDocuments E (semDomFind K args) = Inl e \<longrightarrow>
               fst (searchEntries K E args) = Failure (name e) (message e))"
    using assms by (simp add: searchEntries_def Let_def try_count_def failure_def)
  have partial: "connectToDB E = None \<and> searchSemDoms args \<noteq> Some ''1'' \<and>
          matchPartial args = Some ''1'' \<longrightarrow>
            (\<forall>n. countDocuments E (dictionaryPartialSearch K args) = Inr n \<longrightarrow>
               fst (searchEntries K E args) = Success (CountOnly n)) \<and>
            (\<forall>e. countDocuments E (dictionaryPartialSearch K args) = Inl e \<longrightarrow>
               fst (searchEntries K E args) = Failure (name e) (message e))"
    using assms by (simp add: searchEntries_def Let_def try_count_def failure_def)
  have scoped: "connectToDB E = None \<and> searchSemDoms args \<noteq> Some ''1'' \<and>
          matchPartial args \<noteq> Some ''1'' \<and> truthy (lang args) \<longrightarrow>
            (\<forall>es. aggregateDocs E (fulltextPipeline K args) [] = Inr es \<longrightarrow>
               fst (searchEntries K E args) = Success (CountOnly (length es))) \<and>
            (\<forall>e. aggregateDocs E (fulltextPipeline K args) [] = Inl e \<longrightarrow>
               fst (searchEntries K E args) = Failure (name e) (message e))"
    using assms by (simp add: searchEntries_def Let_def try_aggregate_def failure_def)
  have unscoped: "connectToDB E = None \<and> searchSemDoms args \<noteq> Some ''1'' \<and>
          matchPartial args \<noteq> Some ''1'' \<and> \<not> truthy (lang args) \<longrightarrow>
            (\<forall>n. countDocuments E (dictionaryFulltextSearch K args) = Inr n \<longrightarrow>
               fst (searchEntries K E args) = Success (CountOnly n)) \<and>
            (\<forall>e. countDocuments E (dictionaryFulltextSearch K args) = Inl e \<longrightarrow>
               fst (searchEntries K E args) = Failure (name e) (message e))"
    using assms by (simp add: searchEntries_def Let_def try_count_def failure_def)
  have refused: "\<forall>e. connectToDB E = Some e \<longrightarrow>
            fst (searchEntries K E args) = Failure (name e) (message e)"
    by (simp add: searchEntries_def failure_def)
  show ?thesis
    by (intro conjI) (fact never1 never2 shape ok sem partial scoped unscoped refused)+
qed

theorem count_only_never_not_found_witness:
  "fst (searchEntries sample_consts empty_store
          (sample_args\<lparr>countTotalOnly := Some ''1''\<rparr>)) = Success (CountOnly 0) \<and>
   fst (searchEntries sample_consts two_entry_store
          (sample_args\<lparr>countTotalOnly := Some ''1''\<rparr>)) = Success (CountOnly 2) \<and>
   fst (searchEntries sample_consts two_entry_store
          (sample_args\<lparr>lang := Some ''fr'', countTotalOnly := Some ''1''\<rparr>)) =
     Success (CountOnly 2) \<and>
   (\<forall>p. fst (searchEntries sample_consts empty_store
          (sample_args\<lparr>countTotalOnly := Some ''1''\<rparr>)) \<noteq> NotFound p)"
proof -
  let ?a = "sample_args\<lparr>countTotalOnly := Some ''1''\<rparr>"
  let ?b = "sample_args\<lparr>lang := Some ''fr'', countTotalOnly := Some ''1''\<rparr>"
  have a: "countTotalOnly ?a = Some ''1''" and b: "countTotalOnly ?b = Some ''1''"
    by simp_all
  note empty_a = count_only_never_not_found [OF a, of sample_consts empty_store]
  note two_a = count_only_never_not_found [OF a, of sample_consts two_entry_store]
  note two_b = count_only_never_not_found [OF b, of sample_consts two_entry_store]
  have unscoped_empty: "connectToDB empty_store = None \<and> searchSemDoms ?a \<noteq> Some ''1'' \<and>
      matchPartial ?a \<noteq> Some ''1'' \<and> \<not> truthy (lang ?a)"
    by (simp add: sample_args_def empty_store_def)
  have unscoped_two: "connectToDB two_entry_store = None \<and> searchSemDoms ?a \<noteq> Some ''1'' \<and>
      matchPartial ?a \<noteq> Some ''1'' \<and> \<not> truthy (lang ?a)"
    by (simp add: sample_args_def two_entry_store_def)
  have scoped_two: "connectToDB two_entry_store = None \<and> searchSemDoms ?b \<noteq> Some ''1'' \<and>
      matchPartial ?b \<noteq> Some ''1'' \<and> truthy (lang ?b)"
    by (simp add: sample_args_def two_entry_store_def)
  have zero: "countDocuments empty_store (dictionaryFulltextSearch sample_consts ?a) = Inr 0"
    by (simp add: empty_store_def)
  have two: "countDocuments two_entry_store (dictionaryFulltextSearch sample_consts ?a) = Inr 2"
    by (simp add: two_entry_store_def)
  have listed: "aggregateDocs two_entry_store (fulltextPipeline sample_consts ?b) [] = Inr [7, 8]"
    by (simp add: two_entry_store_def)
  have 1: "fst (searchEntries sample_consts empty_store ?a) = Success (CountOnly 0)"
    by (rule empty_a [THEN conjunct2, THEN conjunct2, THEN conjunct2, THEN conjunct2,
          THEN conjunct2, THEN conjunct2, THEN conjunct2, THEN conjunct1, THEN mp,
          OF unscoped_empty, THEN conjunct1, THEN spec, THEN mp, OF zero])
  have 2: "fst (searchEntries sample_consts two_entry_store ?a) = Success (CountOnly 2)"
    by (rule two_a [THEN conjunct2, THEN conjunct2, THEN conjunct2, THEN conjunct2,
          THEN conjunct2, THEN conjunct2, THEN conjunct2, THEN conjunct1, THEN mp,
          OF unscoped_two, THEN conjunct1, THEN spec, THEN mp, OF two])
  have "fst (searchEntries sample_consts two_entry_store ?b) =
      Success (CountOnly (length [7::nat, 8]))"
    by (rule two_b [THEN conjunct2, THEN conjunct2, THEN conjunct2, THEN conjunct2,
          THEN conjunct2, THEN conjunct2, THEN conjunct1, THEN mp,
          OF scoped_two, THEN conjunct1, THEN spec, THEN mp, OF listed])
  then have 3: "fst (searchEntries sample_consts two_entry_store ?b) = Success (CountOnly 2)"
    by simp
  have 4: "\<forall>p. fst (searchEntries sample_consts empty_store ?a) \<noteq> NotFound p"
    by (rule empty_a [THEN conjunct1])
  from 1 2 3 4 show ?thesis by (intro conjI)
qed

section \<open>Strategy selection\<close>

text \<open>
  C7.  For every request, once the connection is there (and, under semantic-domain
  search with an abbreviation, the regular expression is built): exactly one call is made
  on the collection, and it is a call of the strategy the classification of the spec
  selects for the request; when \<open>searchSemDoms = '1'\<close> that is the semantic-domain
  strategy whatever \<open>matchPartial\<close> and \<open>lang\<close> are, and the outcome does not depend
  on the parameters that only the partial-match and full-text branches read
  (\<open>matchPartial\<close>, \<open>matchAccents\<close>, \<open>mainLang\<close>, \<open>partOfSpeech\<close>, the stemming
  language).  The field paths of the missing module are taken not to start with
  \<open>$\<close>, so that a call shows which branch made it.
\<close>

theorem exactly_one_strategy:
  assumes "field_paths K"
    and "connectToDB E = None"
    and "searchSemDoms args = Some ''1'' \<Longrightarrow> truthy (semDomAbbrev args) \<Longrightarrow>
         new_RegExp E (abbreviationPattern args) = None"
  shows "(\<exists>op. snd (searchEntries K E args) = [op] \<and>
              op_strategy op = spec_strategy args \<and>
              (searchSemDoms args = Some ''1'' \<longrightarrow> op_strategy op = SemanticDomain)) \<and>
         (searchSemDoms args = Some ''1'' \<longrightarrow>
            searchEntries K E
              (args\<lparr>matchPartial := m, matchAccents := a, mainLang := ml,
                    partOfSpeech := p, dollar_language := sl\<rparr>) = searchEntries K E args)"
proof -
  have one: "\<exists>op. snd (searchEntries K E args) = [op] \<and>
              op_strategy op = spec_strategy args \<and>
              (searchSemDoms args = Some ''1'' \<longrightarrow> op_strategy op = SemanticDomain)"
    using assms
    by (simp add: searchEntries_def Let_def spec_strategy_def has_key_semDomFind
        has_key_partial has_key_fulltext)
  have same: "searchEntries K E
              (args\<lparr>matchPartial := m, matchAccents := a, mainLang := ml,
                    partOfSpeech := p, dollar_language := sl\<rparr>) = searchEntries K E args"
    if "searchSemDoms args = Some ''1''"
    using that
    by (simp add: searchEntries_def Let_def semDomFind_def abbreviationRegex_def
        abbreviationPattern_def primaryFilter_init_def cong: option.case_cong)
  from one same show ?thesis by blast
qed

theorem exactly_one_strategy_witness:
  "(\<exists>op. snd (searchEntries sample_consts empty_store
        (sample_args\<lparr>searchSemDoms := Some ''1'', matchPartial := Some ''1'',
                     lang := Some ''fr''\<rparr>)) = [op] \<and>
        op_strategy op = SemanticDomain) \<and>
   (\<exists>op. snd (searchEntries sample_consts empty_store
        (sample_args\<lparr>matchPartial := Some ''1'', lang := Some ''fr''\<rparr>)) = [op] \<and>
        op_strategy op = PartialMatch)"
  using exactly_one_strategy [of sample_consts empty_store
      "sample_args\<lparr>searchSemDoms := Some ''1'', matchPartial := Some ''1'', lang := Some ''fr''\<rparr>"]
    exactly_one_strategy [of sample_consts empty_store
      "sample_args\<lparr>matchPartial := Some ''1'', lang := Some ''fr''\<rparr>"]
  by (simp add: field_paths_def is_operator_def sample_consts_def empty_store_def
      sample_args_def spec_strategy_def)

section \<open>The text-search predicate\<close>

text \<open>
  C8.  For every full-text request (\<open>searchSemDoms\<close> and \<open>matchPartial\<close> both not
  \<open>'1'\<close>): the one call made carries the \<open>$text\<close> predicate whose \<open>$search\<close> is
  the request text between double quotes, whose \<open>$language\<close> is the stemming language
  passed in, and whose \<open>$diacriticSensitive\<close> is whether \<open>matchAccents = '1'\<close>.  The
  handler passes as stemming language the query parameter \<open>stemmingLanguage\<close>, or
  \<open>"none"\<close> when the parameter is absent.
\<close>

theorem fulltext_text_predicate:
  assumes "connectToDB E = None"
    and "searchSemDoms args \<noteq> Some ''1''"
    and "matchPartial args \<noteq> Some ''1''"
  shows "(\<exists>op. snd (searchEntries K E args) = [op] \<and>
            op_text_predicate op =
              Some (FObj [(''$search'', FStr (CHR 0x22 # text args @ [CHR 0x22])),
                          (''$language'', FStr (dollar_language args)),
                          (''$diacriticSensitive'', FBool (matchAccents args = Some ''1''))])) \<and>
         dollar_language (handler_args ev pn pl t) =
           (case qs ev ''stemmingLanguage'' of None \<Rightarrow> ''none'' | Some s \<Rightarrow> s) \<and>
         (\<forall>r. handler K E ev = Some r \<and> qs ev ''text'' = Some t \<and> t \<noteq> [] \<longrightarrow>
            (\<exists>pn pl. r = searchEntries K E (handler_args ev pn pl t)))"
proof -
  have pred: "\<exists>op. snd (searchEntries K E args) = [op] \<and>
            op_text_predicate op =
              Some (FObj [(''$search'', FStr (CHR 0x22 # text args @ [CHR 0x22])),
                          (''$language'', FStr (dollar_language args)),
                          (''$diacriticSensitive'', FBool (matchAccents args = Some ''1''))])"
    using assms
    by (simp add: searchEntries_def Let_def fulltextPipeline_def text_predicate_of_fulltext)
       (simp add: text_predicate_def)
  have stemming: "dollar_language (handler_args ev pn pl t) =
           (case qs ev ''stemmingLanguage'' of None \<Rightarrow> ''none'' | Some s \<Rightarrow> s)"
    by (simp add: handler_args_def handler_language_def)
  have call: "\<exists>pn pl. r = searchEntries K E (handler_args ev pn pl t)"
    if "handler K E ev = Some r" and "qs ev ''text'' = Some t" and "t \<noteq> []" for r
    using that by (auto simp add: handler_def split: option.splits)
  from pred stemming call show ?thesis by blast
qed

theorem fulltext_text_predicate_witness:
  "handler sample_consts empty_store sample_event =
     Some (NotFound (FArr [FObj []]),
       [Find (FObj [(''dictionaryId'', FStr ''d1''),
                    (''$text'',
                     FObj [(''$search'', FStr (CHR 0x22 # ''run'' @ [CHR 0x22])),
                           (''$language'', FStr ''none''),
                           (''$diacriticSensitive'', FBool True)])])
          [Skip (Num 0), Limit (Num 100)]])"
  using fulltext_text_predicate
    [of empty_store "handler_args sample_event (Num 1) (Num 100) ''run''" sample_consts
        sample_event "Num 1" "Num 100" "''run''"]
  by (simp add: sample_consts_def empty_store_def sample_event_def handler_defs js_Number_def
      is_digit_def searchEntries_def Let_def try_defs shape_entries_def filter_defs
      getDbSkip_def digit_val_def)

section \<open>Pagination parameters\<close>

text \<open>
  Whenever the clamped values are numbers they are in range: the page number is at
  least 1 and the page limit lies between 1 and the maximum.
\<close>

lemma pagination_in_range_unless_NaN:
  assumes "1 \<le> DB_MAX_DOCUMENTS_PER_CALL K"
  shows "handler_pageNumber ev = Some (Num n) \<Longrightarrow> 1 \<le> n"
    and "handler_pageLimit K ev = Some (Num m) \<Longrightarrow> 1 \<le> m \<and> m \<le> DB_MAX_DOCUMENTS_PER_CALL K"
proof -
  show "1 \<le> n" if "handler_pageNumber ev = Some (Num n)"
  proof -
    from that obtain x where "Math_max x (Num 1) = Num n"
      by (auto simp: handler_pageNumber_def)
    then show ?thesis by (cases x) auto
  qed
  show "1 \<le> m \<and> m \<le> DB_MAX_DOCUMENTS_PER_CALL K" if "handler_pageLimit K ev = Some (Num m)"
  proof -
    from that obtain x where
      "Math_min (Math_max x (Num 1)) (Num (DB_MAX_DOCUMENTS_PER_CALL K)) = Num m"
      by (auto simp: handler_pageLimit_def)
    then show ?thesis using assms by (cases x) auto
  qed
qed

text \<open>
  C9.  The claim: for every raw \<open>pageNumber\<close> and \<open>pageLimit\<close> the handler passes
  an integer page number of at least 1 and a page limit between 1 and 100.  The code
  does not do so for a string that is no number: \<open>Number\<close> gives \<open>NaN\<close>, which
  \<open>Math.max\<close> and \<open>Math.min\<close> hand on, so \<open>searchEntries\<close> is called with
  \<open>NaN\<close> for both.
\<close>

theorem handler_passes_NaN_pagination:
  assumes "qs ev ''pageNumber'' = Some pn" and "js_Number pn = Some NaN"
    and "qs ev ''pageLimit'' = Some pl" and "js_Number pl = Some NaN"
    and "qs ev ''text'' = Some t" and "t \<noteq> []"
  shows "handler K E ev = Some (searchEntries K E (handler_args ev NaN NaN t))"
  using assms by (simp add: handler_def handler_pageNumber_def handler_pageLimit_def)

theorem handler_passes_NaN_pagination_witness:
  "js_Number ''abc'' = Some NaN \<and>
   handler sample_consts empty_store nan_event =
     Some (NotFound (FArr [FObj []]),
       [Find (FObj [(''dictionaryId'', FStr ''d1''),
                    (''$text'',
                     FObj [(''$search'', FStr (CHR 0x22 # ''run'' @ [CHR 0x22])),
                           (''$language'', FStr ''none''),
                           (''$diacriticSensitive'', FBool False)])])
          [Skip NaN, Limit NaN]])"
proof -
  have n: "js_Number ''abc'' = Some NaN"
    by (simp add: js_Number_def is_digit_def is_ascii_letter_def)
  have q: "qs nan_event ''pageNumber'' = Some ''abc''" "qs nan_event ''pageLimit'' = Some ''abc''"
    "qs nan_event ''text'' = Some ''run''"
    by (simp_all add: qs_def nan_event_def)
  have "handler sample_consts empty_store nan_event =
      Some (searchEntries sample_consts empty_store (handler_args nan_event NaN NaN ''run''))"
    using handler_passes_NaN_pagination [OF q(1) n q(2) n q(3)] by simp
  moreover have "searchEntries sample_consts empty_store (handler_args nan_event NaN NaN ''run'') =
     (NotFound (FArr [FObj []]),
       [Find (FObj [(''dictionaryId'', FStr ''d1''),
                    (''$text'',
                     FObj [(''$search'', FStr (CHR 0x22 # ''run'' @ [CHR 0x22])),
                           (''$language'', FStr ''none''),
                           (''$diacriticSensitive'', FBool False)])])
          [Skip NaN, Limit NaN]])"
    by (simp add: sample_consts_def empty_store_def nan_event_def
      qs_def path_param_def handler_args_def handler_language_def searchEntries_def Let_def
      try_defs shape_entries_def filter_defs getDbSkip_def)
  ultimately show ?thesis using n by simp
qed

section \<open>Flags\<close>

text \<open>
  C10.  Each of the four flags \<open>searchSemDoms\<close>, \<open>matchPartial\<close>, \<open>matchAccents\<close>
  and \<open>countTotalOnly\<close> counts as set only when it is the string \<open>'1'\<close>: with any
  other value, \<open>'true'\<close>, \<open>'yes'\<close>, \<open>'01'\<close> and the empty string among them, the
  response and the call made are those of the request with the flag left undefined.
\<close>

theorem flags_are_true_only_for_1:
  assumes "v \<noteq> Some ''1''"
  shows "searchEntries K E (args\<lparr>searchSemDoms := v\<rparr>) =
           searchEntries K E (args\<lparr>searchSemDoms := None\<rparr>) \<and>
         searchEntries K E (args\<lparr>matchPartial := v\<rparr>) =
           searchEntries K E (args\<lparr>matchPartial := None\<rparr>) \<and>
         searchEntries K E (args\<lparr>matchAccents := v\<rparr>) =
           searchEntries K E (args\<lparr>matchAccents := None\<rparr>) \<and>
         searchEntries K E (args\<lparr>countTotalOnly := v\<rparr>) =
           searchEntries K E (args\<lparr>countTotalOnly := None\<rparr>)"
proof -
  have 1: "searchEntries K E (args\<lparr>searchSemDoms := v\<rparr>) =
           searchEntries K E (args\<lparr>searchSemDoms := None\<rparr>)"
    using assms by (simp add: searchEntries_def Let_def filter_defs cong: option.case_cong)
  have 2: "searchEntries K E (args\<lparr>matchPartial := v\<rparr>) =
           searchEntries K E (args\<lparr>matchPartial := None\<rparr>)"
    using assms by (simp add: searchEntries_def Let_def filter_defs cong: option.case_cong)
  have 3: "searchEntries K E (args\<lparr>matchAccents := v\<rparr>) =
           searchEntries K E (args\<lparr>matchAccents := None\<rparr>)"
    using assms by (simp add: searchEntries_def Let_def filter_defs cong: option.case_cong)
  have 4: "searchEntries K E (args\<lparr>countTotalOnly := v\<rparr>) =
           searchEntries K E (args\<lparr>countTotalOnly := None\<rparr>)"
    using assms by (simp add: searchEntries_def Let_def filter_defs cong: option.case_cong)
  from 1 2 3 4 show ?thesis by simp
qed

theorem flags_are_true_only_for_1_witness:
  "searchEntries sample_consts empty_store (sample_args\<lparr>matchPartial := Some ''true''\<rparr>) =
     searchEntries sample_consts empty_store (sample_args\<lparr>matchPartial := None\<rparr>) \<and>
   map op_strategy (snd (searchEntries sample_consts empty_store
     (sample_args\<lparr>matchPartial := Some ''true''\<rparr>))) = [FullTextUnscoped] \<and>
   map op_strategy (snd (searchEntries sample_consts empty_store
     (sample_args\<lparr>matchPartial := Some ''1''\<rparr>))) = [PartialMatch]"
proof -
  have "searchEntries sample_consts empty_store (sample_args\<lparr>matchPartial := Some ''true''\<rparr>) =
     searchEntries sample_consts empty_store (sample_args\<lparr>matchPartial := None\<rparr>)"
    using flags_are_true_only_for_1 [of "Some ''true''" sample_consts empty_store sample_args]
    by simp
  moreover have "map op_strategy (snd (searchEntries sample_consts empty_store
     (sample_args\<lparr>matchPartial := None\<rparr>))) = [FullTextUnscoped]"
    by (simp add: sample_defs searchEntries_def Let_def filter_defs)
  moreover have "map op_strategy (snd (searchEntries sample_consts empty_store
     (sample_args\<lparr>matchPartial := Some ''1''\<rparr>))) = [PartialMatch]"
    by (simp add: sample_defs searchEntries_def Let_def filter_defs)
  ultimately show ?thesis by simp
qed

end
